theory Spec2Isabelle
  imports Complex_Main "HOL-Library.Monad_Syntax"
begin

section \<open>Python values and exceptions\<close>

text \<open>
  The event pipeline of \<^verbatim>\<open>backend/app/messages/event.py\<close> works on the values that
  \<^verbatim>\<open>json.loads\<close> produces.  They are kept as a datatype, so that every dynamic type
  error of the Python code is a branch of the model.  \<open>JNull\<close> is Python's \<^verbatim>\<open>None\<close>;
  a \<^verbatim>\<open>dict\<close> is an association list that is read with \<open>map_of\<close>.
\<close>

datatype json =
    JNull
  | JBool bool
  | JInt int
  | JFloat rat
  | JStr string
  | JList "json list"
  | JObj "(string \<times> json) list"

text \<open>The exception classes that the modelled code can raise, with their argument where
  the code gives one.  \<open>Exception\<close> also stands for every error of a collaborator
  (session provider, database driver).\<close>

datatype exc =
    JSONDecodeError
  | TypeError
  | ValueError
  | AttributeError
  | KeyError string
  | AssertionError
  | ValidationError
  | IntegrityError
  | Exception string

text \<open>Truthiness, as \<^verbatim>\<open>if x:\<close> and \<^verbatim>\<open>x and y\<close> test it.\<close>

fun truthy :: "json \<Rightarrow> bool" where
  "truthy JNull = False"
| "truthy (JBool b) = b"
| "truthy (JInt i) = (i \<noteq> 0)"
| "truthy (JFloat r) = (r \<noteq> 0)"
| "truthy (JStr s) = (s \<noteq> [])"
| "truthy (JList xs) = (xs \<noteq> [])"
| "truthy (JObj kvs) = (kvs \<noteq> [])"

text \<open>\<^verbatim>\<open>needle in haystack\<close> for two strings: the needle occurs as a contiguous block.\<close>

fun is_substring :: "string \<Rightarrow> string \<Rightarrow> bool" where
  "is_substring x [] = (x = [])"
| "is_substring x (c # cs) = (take (length x) (c # cs) = x \<or> is_substring x cs)"

text \<open>\<^verbatim>\<open>k in d\<close> for a string \<open>k\<close>: key membership in a dict, element membership in a
  list, substring test in a string, and \<^verbatim>\<open>TypeError\<close> (not iterable) for everything else.\<close>

fun py_contains :: "string \<Rightarrow> json \<Rightarrow> exc + bool" where
  "py_contains k (JObj kvs) = Inr (k \<in> set (map fst kvs))"
| "py_contains k (JList xs) = Inr (JStr k \<in> set xs)"
| "py_contains k (JStr s) = Inr (is_substring k s)"
| "py_contains k JNull = Inl TypeError"
| "py_contains k (JBool b) = Inl TypeError"
| "py_contains k (JInt i) = Inl TypeError"
| "py_contains k (JFloat r) = Inl TypeError"

text \<open>\<^verbatim>\<open>d[k]\<close> for a string \<open>k\<close>: \<^verbatim>\<open>KeyError\<close> for a dict without the key,
  \<^verbatim>\<open>TypeError\<close> for every other value (a list or a string wants an integer index, the
  rest is not subscriptable).\<close>

fun py_getitem :: "json \<Rightarrow> string \<Rightarrow> exc + json" where
  "py_getitem (JObj kvs) k = (case map_of kvs k of None \<Rightarrow> Inl (KeyError k) | Some v \<Rightarrow> Inr v)"
| "py_getitem JNull k = Inl TypeError"
| "py_getitem (JBool b) k = Inl TypeError"
| "py_getitem (JInt i) k = Inl TypeError"
| "py_getitem (JFloat r) k = Inl TypeError"
| "py_getitem (JStr s) k = Inl TypeError"
| "py_getitem (JList xs) k = Inl TypeError"

text \<open>\<^verbatim>\<open>d.get(k)\<close> and \<^verbatim>\<open>d.get(k, None)\<close>: only a dict has the method.\<close>

fun py_get :: "json \<Rightarrow> string \<Rightarrow> exc + json" where
  "py_get (JObj kvs) k = (case map_of kvs k of None \<Rightarrow> Inr JNull | Some v \<Rightarrow> Inr v)"
| "py_get JNull k = Inl AttributeError"
| "py_get (JBool b) k = Inl AttributeError"
| "py_get (JInt i) k = Inl AttributeError"
| "py_get (JFloat r) k = Inl AttributeError"
| "py_get (JStr s) k = Inl AttributeError"
| "py_get (JList xs) k = Inl AttributeError"

text \<open>\<^verbatim>\<open>x in (s1, ..., sn)\<close> and \<^verbatim>\<open>x == s\<close> against strings: a value equals a string
  only if it is that string.\<close>

definition py_eq_str :: "json \<Rightarrow> string \<Rightarrow> bool" where
  "py_eq_str v s = (v = JStr s)"

definition py_in_strs :: "json \<Rightarrow> string list \<Rightarrow> bool" where
  "py_in_strs v ss = list_ex (py_eq_str v) ss"


section \<open>Enumerations of the collaborating modules\<close>

text \<open>Modelled from the spec: the values of the enumeration \<^verbatim>\<open>DefaultScope\<close>
  (\<^verbatim>\<open>app.models.scope\<close>), whose members PATRIMONIAL, ALL, SELLS and HUMAN\_RESOURCE
  are named by the specification (the member ALL is written \<open>ALL'\<close>).\<close>

datatype DefaultScope = PATRIMONIAL | ALL' | SELLS | HUMAN_RESOURCE

fun DefaultScope_value :: "DefaultScope \<Rightarrow> string" where
  "DefaultScope_value PATRIMONIAL = ''PATRIMONIAL''"
| "DefaultScope_value ALL' = ''ALL''"
| "DefaultScope_value SELLS = ''SELLS''"
| "DefaultScope_value HUMAN_RESOURCE = ''HUMAN_RESOURCE''"

text \<open>Modelled from the spec: the string-valued enumerations \<^verbatim>\<open>UserEvents\<close> and
  \<^verbatim>\<open>EnterpriseEvents\<close> (\<^verbatim>\<open>app.router.utils\<close>), with the six tokens of the
  specification's list of recognised event kinds.\<close>

datatype UserEvents = USER_CREATED | USER_UPDATED | USER_DELETED

datatype EnterpriseEvents = ENTERPRISE_CREATED | ENTERPRISE_UPDATED | ENTERPRISE_DELETED

fun UserEvents_value :: "UserEvents \<Rightarrow> string" where
  "UserEvents_value USER_CREATED = ''user.created''"
| "UserEvents_value USER_UPDATED = ''user.updated''"
| "UserEvents_value USER_DELETED = ''user.deleted''"

fun EnterpriseEvents_value :: "EnterpriseEvents \<Rightarrow> string" where
  "EnterpriseEvents_value ENTERPRISE_CREATED = ''enterprise.created''"
| "EnterpriseEvents_value ENTERPRISE_UPDATED = ''enterprise.updated''"
| "EnterpriseEvents_value ENTERPRISE_DELETED = ''enterprise.deleted''"


section \<open>The event envelope\<close>

text \<open>An instant of \<^verbatim>\<open>datetime.datetime\<close> is a point of an integer time line.\<close>

type_synonym datetime = int

text \<open>\<^verbatim>\<open>UpdateEvent.__init__\<close> stores its arguments unchecked, so the fields hold whatever
  value the message carried.\<close>

record UpdateEvent =
  event :: json
  event_scope :: json
  data :: json
  start_date :: datetime
  origin :: json
  update_scope :: json
  full_user :: json

text \<open>The five keys tested by \<^verbatim>\<open>create_from_message\<close>, in the order of the tuple.\<close>

definition required_fields :: "string list" where
  "required_fields = [''event'', ''event_scope'', ''data'', ''origin'', ''start_date'']"

text \<open>\<^verbatim>\<open>any(map(lambda x: x not in message_dict, fields))\<close>: the fields are tested from
  left to right, the first missing one ends the test, and an exception of \<^verbatim>\<open>in\<close>
  leaves it.\<close>

fun any_not_in :: "json \<Rightarrow> string list \<Rightarrow> exc + bool" where
  "any_not_in d [] = Inr False"
| "any_not_in d (k # ks) =
     (case py_contains k d of
        Inl e \<Rightarrow> Inl e
      | Inr b \<Rightarrow> if \<not> b then Inr True else any_not_in d ks)"

text \<open>\<^verbatim>\<open>datetime.datetime.fromisoformat(v)\<close>: \<^verbatim>\<open>TypeError\<close> for an argument that is not
  a string, \<^verbatim>\<open>ValueError\<close> for a string that is no ISO-8601 timestamp.  The parser
  of the standard library is the parameter \<open>parse_iso\<close>.\<close>

fun fromisoformat :: "(string \<Rightarrow> datetime option) \<Rightarrow> json \<Rightarrow> exc + datetime" where
  "fromisoformat parse_iso (JStr s) = (case parse_iso s of None \<Rightarrow> Inl ValueError | Some t \<Rightarrow> Inr t)"
| "fromisoformat parse_iso JNull = Inl TypeError"
| "fromisoformat parse_iso (JBool b) = Inl TypeError"
| "fromisoformat parse_iso (JInt i) = Inl TypeError"
| "fromisoformat parse_iso (JFloat r) = Inl TypeError"
| "fromisoformat parse_iso (JList xs) = Inl TypeError"
| "fromisoformat parse_iso (JObj kvs) = Inl TypeError"

text \<open>The call \<^verbatim>\<open>cls(message_dict["event"], ..., full_user=message_dict.get("user", None))\<close>,
  its arguments evaluated from left to right.\<close>

definition build_event :: "(string \<Rightarrow> datetime option) \<Rightarrow> json \<Rightarrow> exc + UpdateEvent" where
  "build_event parse_iso message_dict =
     (case py_getitem message_dict ''event'' of Inl e \<Rightarrow> Inl e | Inr ev \<Rightarrow>
     (case py_getitem message_dict ''event_scope'' of Inl e \<Rightarrow> Inl e | Inr sc \<Rightarrow>
     (case py_getitem message_dict ''data'' of Inl e \<Rightarrow> Inl e | Inr da \<Rightarrow>
     (case py_getitem message_dict ''start_date'' of Inl e \<Rightarrow> Inl e | Inr sd \<Rightarrow>
     (case fromisoformat parse_iso sd of Inl e \<Rightarrow> Inl e | Inr t \<Rightarrow>
     (case py_getitem message_dict ''origin'' of Inl e \<Rightarrow> Inl e | Inr orig \<Rightarrow>
     (case py_get message_dict ''update_scope'' of Inl e \<Rightarrow> Inl e | Inr us \<Rightarrow>
     (case py_get message_dict ''user'' of Inl e \<Rightarrow> Inl e | Inr fu \<Rightarrow>
        Inr \<lparr>event = ev, event_scope = sc, data = da, start_date = t, origin = orig,
             update_scope = us, full_user = fu\<rparr>))))))))"

text \<open>\<^verbatim>\<open>UpdateEvent.create_from_message\<close>.  The decoder \<^verbatim>\<open>json.loads\<close> is the
  parameter \<open>loads\<close>, with \<open>None\<close> for its \<^verbatim>\<open>JSONDecodeError\<close>, the only exception that
  the function catches.  The result is \<open>Inl\<close> for an exception that leaves the function,
  \<open>Inr None\<close> for the return value \<^verbatim>\<open>None\<close>, and \<open>Inr (Some e)\<close> for an event.\<close>

definition create_from_message ::
  "(string \<Rightarrow> json option) \<Rightarrow> (string \<Rightarrow> datetime option) \<Rightarrow> string \<Rightarrow> exc + UpdateEvent option"
where
  "create_from_message loads parse_iso message =
     (case loads message of
        None \<Rightarrow> Inr None
      | Some message_dict \<Rightarrow>
          (case any_not_in message_dict required_fields of
             Inl e \<Rightarrow> Inl e
           | Inr True \<Rightarrow> Inr None
           | Inr False \<Rightarrow>
               (case build_event parse_iso message_dict of
                  Inl e \<Rightarrow> Inl e
                | Inr ev \<Rightarrow> Inr (Some ev))))"


section \<open>The scope filter\<close>

text \<open>\<^verbatim>\<open>UpdateEvent._check_valid_user_event\<close>.\<close>

definition user_events :: "string list" where
  "user_events = map UserEvents_value [USER_CREATED, USER_UPDATED, USER_DELETED]"

definition enterprise_events :: "string list" where
  "enterprise_events =
     map EnterpriseEvents_value [ENTERPRISE_CREATED, ENTERPRISE_UPDATED, ENTERPRISE_DELETED]"

definition check_valid_user_event :: "UpdateEvent \<Rightarrow> bool" where
  "check_valid_user_event self =
     (if py_in_strs (event self) (user_events @ enterprise_events) then
        (let check_update_scope =
               (if update_scope self \<noteq> JNull then update_scope self else JStr '''')
         in list_ex id
              [py_eq_str (event_scope self) (DefaultScope_value PATRIMONIAL),
               py_eq_str (event_scope self) (DefaultScope_value ALL'),
               py_eq_str check_update_scope (DefaultScope_value PATRIMONIAL),
               py_eq_str check_update_scope (DefaultScope_value ALL')])
      else False)"


section \<open>The transactional apply loop\<close>

text \<open>
  \<^verbatim>\<open>UpdateEvent.__db_access_loop\<close> talks to two collaborators: the session provider
  \<^verbatim>\<open>get_db\<close> and the session it yields.  Both act on a world \<open>'w\<close> (the database
  server, the connection pool) that is passed along explicitly.  \<open>get_db\<close> is one call
  \<^verbatim>\<open>next(get_db())\<close>: it raises, yields \<^verbatim>\<open>None\<close>, or yields a session.  The session
  methods \<^verbatim>\<open>rollback\<close>, \<^verbatim>\<open>close\<close> and the property \<^verbatim>\<open>is_active\<close> are taken not to
  raise.
\<close>

record ('w, 'db) provider =
  get_db :: "'w \<Rightarrow> (exc + 'db option) \<times> 'w"
  is_active :: "'db \<Rightarrow> 'w \<Rightarrow> bool"
  close :: "'db \<Rightarrow> 'w \<Rightarrow> 'w"
  rollback :: "'db \<Rightarrow> 'w \<Rightarrow> 'w"

text \<open>The callback \<^verbatim>\<open>db_function_callback(db)\<close> returns or raises, and changes the world
  in both cases.\<close>

type_synonym ('w, 'db) callback = "'db \<Rightarrow> 'w \<Rightarrow> (exc + unit) \<times> 'w"

text \<open>The local variables \<^verbatim>\<open>db\<close>, \<^verbatim>\<open>err\<close> and \<^verbatim>\<open>counter\<close> of the loop, the world, and
  three observers that the code does not have: the number of calls of \<^verbatim>\<open>next(get_db())\<close>,
  the seconds spent in \<^verbatim>\<open>asyncio.sleep\<close>, and whether any call has yielded a session.\<close>

record ('w, 'db) loop_state =
  world :: 'w
  db :: "'db option"
  err :: "exc option"
  counter :: int
  acquisitions :: nat
  waited :: nat
  acquired_ever :: bool

text \<open>\<^verbatim>\<open>if db.is_active: db.close()\<close>.\<close>

definition close_if_active :: "('w, 'db) provider \<Rightarrow> 'db \<Rightarrow> 'w \<Rightarrow> 'w" where
  "close_if_active env d w = (if is_active env d w then close env d w else w)"

text \<open>The handler \<^verbatim>\<open>except Exception as db_err\<close>.  Only under \<^verbatim>\<open>if db:\<close> does it roll
  back, sleep and count the attempt; in both cases the next iteration follows.\<close>

definition on_exception ::
  "('w, 'db) provider \<Rightarrow> exc \<Rightarrow> ('w, 'db) loop_state \<Rightarrow> ('w, 'db) loop_state"
where
  "on_exception env db_err s =
     (case db s of
        None \<Rightarrow> s\<lparr>err := Some db_err\<rparr>
      | Some d \<Rightarrow>
          s\<lparr>err := Some db_err,
            world := close_if_active env d (rollback env d (world s)),
            waited := waited s + 5,
            counter := counter s - 1\<rparr>)"

text \<open>One run of the body of \<^verbatim>\<open>while counter > 0\<close>.  The first component of the result
  tells whether the body ended in \<^verbatim>\<open>break\<close>.\<close>

definition loop_body ::
  "('w, 'db) provider \<Rightarrow> ('w, 'db) callback \<Rightarrow> ('w, 'db) loop_state
     \<Rightarrow> bool \<times> ('w, 'db) loop_state"
where
  "loop_body env db_function_callback s =
     (case get_db env (world s) of
        (Inl db_err, w) \<Rightarrow>
          (False, on_exception env db_err (s\<lparr>world := w, acquisitions := acquisitions s + 1\<rparr>))
      | (Inr None, w) \<Rightarrow>
          (False, s\<lparr>world := w, db := None, acquisitions := acquisitions s + 1,
                    waited := waited s + 5, counter := counter s - 1\<rparr>)
      | (Inr (Some d), w) \<Rightarrow>
          (case db_function_callback d w of
             (Inl db_err, w') \<Rightarrow>
               (False, on_exception env db_err
                  (s\<lparr>world := w', db := Some d, acquisitions := acquisitions s + 1,
                     acquired_ever := True\<rparr>))
           | (Inr u, w') \<Rightarrow>
               (True, s\<lparr>world := close_if_active env d w', db := Some d,
                        acquisitions := acquisitions s + 1, acquired_ever := True\<rparr>)))"

text \<open>The \<^verbatim>\<open>while\<close> loop.  It need not end, so it is a partial function: \<open>None\<close> is
  the run that never leaves the loop.\<close>

partial_function (option) db_access_while ::
  "('w, 'db) provider \<Rightarrow> ('w, 'db) callback \<Rightarrow> ('w, 'db) loop_state
     \<Rightarrow> ('w, 'db) loop_state option"
where
  "db_access_while env db_function_callback s =
     (if counter s > 0 then
        (case loop_body env db_function_callback s of
           (brk, s') \<Rightarrow> if brk then Some s' else db_access_while env db_function_callback s')
      else Some s)"

text \<open>The statements after the loop: what \<^verbatim>\<open>__db_access_loop\<close> raises or returns.\<close>

definition after_loop :: "('w, 'db) loop_state \<Rightarrow> exc + unit" where
  "after_loop s =
     (if counter s = 0 then
        (if db s = None then Inl (Exception ''Failed to connect to the database'')
         else (case err s of Some e \<Rightarrow> Inl e | None \<Rightarrow> Inr ()))
      else Inr ())"

definition initial_state :: "int \<Rightarrow> 'w \<Rightarrow> ('w, 'db) loop_state" where
  "initial_state retries w =
     \<lparr>world = w, db = None, err = None, counter = retries, acquisitions = 0, waited = 0,
      acquired_ever = False\<rparr>"

text \<open>\<^verbatim>\<open>__db_access_loop(db_function_callback, retries)\<close>, started in world \<open>w\<close>: the
  outcome and the final state, or \<open>None\<close> when the call never returns.\<close>

definition db_access_loop ::
  "('w, 'db) provider \<Rightarrow> ('w, 'db) callback \<Rightarrow> int \<Rightarrow> 'w
     \<Rightarrow> ((exc + unit) \<times> ('w, 'db) loop_state) option"
where
  "db_access_loop env db_function_callback retries w =
     map_option (\<lambda>s. (after_loop s, s))
       (db_access_while env db_function_callback (initial_state retries w))"

text \<open>The default \<^verbatim>\<open>retries: int = 5\<close>.\<close>

definition default_retries :: int where
  "default_retries = 5"


declare db_access_while.simps [code]


section \<open>Entities and the session\<close>

text \<open>The rows of the four tables that the event pipeline touches, with the columns that
  the tests of the repository set.  Primary and foreign keys are \<^verbatim>\<open>Optional[int]\<close>.  The
  three text columns of a user hold whatever value the payload carried, since
  \<^verbatim>\<open>update_user\<close> assigns \<^verbatim>\<open>self.data["username"]\<close> unchecked.\<close>

record Role =
  Role_id :: "int option"
  Role_name :: string
  Role_hierarchy :: int
  Role_enterprise_id :: "int option"

record Scope =
  Scope_id :: "int option"
  Scope_name :: string
  Scope_enterprise_id :: "int option"

record Enterprise =
  Enterprise_id :: "int option"
  Enterprise_name :: string
  Enterprise_accountable_email :: string

record User =
  User_id :: "int option"
  User_username :: json
  User_email :: json
  User_full_name :: json
  User_role_id :: "int option"
  User_scope_id :: "int option"
  User_enterprise_id :: "int option"
  User_created_at :: "datetime option"

text \<open>The snapshot \<^verbatim>\<open>UserRead\<close> with its nested relations.\<close>

record RoleRelation =
  RoleRelation_id :: int
  RoleRelation_name :: string
  RoleRelation_hierarchy :: int

record ScopeRelation =
  ScopeRelation_id :: int
  ScopeRelation_name :: string

record EnterpriseRelation =
  EnterpriseRelation_id :: int
  EnterpriseRelation_name :: string
  EnterpriseRelation_accountable_email :: string

record UserRead =
  UserRead_id :: int
  UserRead_username :: string
  UserRead_email :: string
  UserRead_full_name :: string
  UserRead_role :: RoleRelation
  UserRead_scope :: ScopeRelation
  UserRead_enterprise :: EnterpriseRelation

datatype entity = EUser User | ERole Role | EScope Scope | EEnterprise Enterprise

text \<open>The model classes live in \<^verbatim>\<open>app.models\<close>, outside the modelled file.  Their
  constructors are parameters: each takes the value that the code unpacks with \<^verbatim>\<open>**\<close>
  and builds the object or raises.  \<open>User_of_read\<close> is
  \<^verbatim>\<open>User(**user_read.model_dump())\<close>, and \<open>now\<close> is \<^verbatim>\<open>datetime.datetime.now()\<close>.\<close>

record models =
  UserRead_of :: "json \<Rightarrow> exc + UserRead"
  User_of_read :: "UserRead \<Rightarrow> exc + User"
  User_of :: "json \<Rightarrow> exc + User"
  Role_of :: "json \<Rightarrow> exc + Role"
  Scope_of :: "json \<Rightarrow> exc + Scope"
  Enterprise_of :: "json \<Rightarrow> exc + Enterprise"
  parse_datetime :: "string \<Rightarrow> datetime option"
  now :: datetime

text \<open>The database as one session sees it: the committed rows of each table, and
  \<open>added\<close>, the record of every object handed to \<^verbatim>\<open>session.add\<close>.  Every
  \<^verbatim>\<open>add\<close> and \<^verbatim>\<open>delete\<close> of the mutators is followed at once by \<^verbatim>\<open>commit\<close>, so each
  pair is one step.  A commit fails only for an insert whose primary key is taken;
  referential actions of the schema are not modelled.\<close>

record store =
  enterprises :: "Enterprise list"
  users :: "User list"
  roles :: "Role list"
  scopes :: "Scope list"
  added :: "entity list"

text \<open>The primary key that \<^verbatim>\<open>session.get(Model, ident)\<close> looks up.  The model covers the
  keys that the events of the tests carry, integers: for them the row with that key is
  found.  What the database driver makes of another key (a truth value, a numeric string,
  a float, an integer beyond the range of the column) is not modelled; such a key is taken
  to find no row.\<close>

fun json_int :: "json \<Rightarrow> int option" where
  "json_int (JInt i) = Some i"
| "json_int JNull = None"
| "json_int (JBool b) = None"
| "json_int (JFloat r) = None"
| "json_int (JStr s) = None"
| "json_int (JList xs) = None"
| "json_int (JObj kvs) = None"

definition has_key :: "('a \<Rightarrow> int option) \<Rightarrow> json \<Rightarrow> 'a \<Rightarrow> bool" where
  "has_key pk ident row = (pk row \<noteq> None \<and> pk row = json_int ident)"

definition session_get_User :: "store \<Rightarrow> json \<Rightarrow> User option" where
  "session_get_User st ident = find (has_key User_id ident) (users st)"

definition session_get_Enterprise :: "store \<Rightarrow> json \<Rightarrow> Enterprise option" where
  "session_get_Enterprise st ident = find (has_key Enterprise_id ident) (enterprises st)"

definition session_get_Role :: "store \<Rightarrow> json \<Rightarrow> Role option" where
  "session_get_Role st ident = find (has_key Role_id ident) (roles st)"

definition session_get_Scope :: "store \<Rightarrow> json \<Rightarrow> Scope option" where
  "session_get_Scope st ident = find (has_key Scope_id ident) (scopes st)"

text \<open>\<^verbatim>\<open>session.delete(row); session.commit()\<close>.\<close>

definition delete_commit_User :: "store \<Rightarrow> User \<Rightarrow> store" where
  "delete_commit_User st db_user =
     st\<lparr>users := filter (\<lambda>u. User_id u \<noteq> User_id db_user) (users st)\<rparr>"

definition delete_commit_Enterprise :: "store \<Rightarrow> Enterprise \<Rightarrow> store" where
  "delete_commit_Enterprise st enterprise =
     st\<lparr>enterprises :=
          filter (\<lambda>e. Enterprise_id e \<noteq> Enterprise_id enterprise) (enterprises st)\<rparr>"

text \<open>\<^verbatim>\<open>session.add(db_user); session.commit()\<close> for a row that was loaded from the
  session: its columns are written back.\<close>

definition update_commit_User :: "store \<Rightarrow> User \<Rightarrow> store" where
  "update_commit_User st db_user =
     st\<lparr>users := map (\<lambda>u. if User_id u = User_id db_user then db_user else u) (users st),
        added := added st @ [EUser db_user]\<rparr>"

text \<open>\<^verbatim>\<open>session.add(user); session.commit()\<close> for a new object.  A missing key is
  assigned by the table (one more than the largest key); a key that is taken makes
  the commit raise, and nothing is inserted.\<close>

definition next_User_id :: "User list \<Rightarrow> int" where
  "next_User_id us = fold max (map (\<lambda>u. case User_id u of None \<Rightarrow> 0 | Some i \<Rightarrow> i) us) 0 + 1"

definition insert_commit_User :: "store \<Rightarrow> User \<Rightarrow> (exc + unit) \<times> store" where
  "insert_commit_User st user =
     (let st1 = st\<lparr>added := added st @ [EUser user]\<rparr> in
      case User_id user of
        None \<Rightarrow>
          (Inr (), st1\<lparr>users := users st @ [user\<lparr>User_id := Some (next_User_id (users st))\<rparr>]\<rparr>)
      | Some i \<Rightarrow>
          if list_ex (\<lambda>u. User_id u = Some i) (users st) then (Inl IntegrityError, st1)
          else (Inr (), st1\<lparr>users := users st @ [user]\<rparr>))"

text \<open>Modelled from the spec: the queries \<^verbatim>\<open>BaseRole.get_roles_by_names\<close> and
  \<^verbatim>\<open>BaseScope.get_roles_by_names\<close> (\<^verbatim>\<open>app.models.role\<close>, \<^verbatim>\<open>app.models.scope\<close>),
  which select the rows of the given enterprise whose name is one of the given names;
  \<^verbatim>\<open>.first()\<close> takes the first row or \<^verbatim>\<open>None\<close>.\<close>

definition Role_by_names :: "store \<Rightarrow> json \<Rightarrow> json list \<Rightarrow> Role list" where
  "Role_by_names st enterprise_id names =
     filter (\<lambda>r. has_key Role_enterprise_id enterprise_id r \<and> JStr (Role_name r) \<in> set names)
       (roles st)"

definition Scope_by_names :: "store \<Rightarrow> json \<Rightarrow> json list \<Rightarrow> Scope list" where
  "Scope_by_names st enterprise_id names =
     filter (\<lambda>r. has_key Scope_enterprise_id enterprise_id r \<and> JStr (Scope_name r) \<in> set names)
       (scopes st)"

fun first :: "'a list \<Rightarrow> 'a option" where
  "first [] = None"
| "first (x # xs) = Some x"

text \<open>\<^verbatim>\<open>s in (v1, ..., vn)\<close> for a string \<open>s\<close> and a tuple of values: \<open>s\<close> equals an
  element only if the element is the same string.\<close>

definition py_str_in :: "string \<Rightarrow> json list \<Rightarrow> bool" where
  "py_str_in s vs = (JStr s \<in> set vs)"


section \<open>The entity mutators\<close>

subsection \<open>Update User\<close>

text \<open>Lines 266 to 284 of \<^verbatim>\<open>update_user\<close>: the new role and the new scope.  The scope is
  looked up inside the branch \<^verbatim>\<open>elif "role_name" in self.data\<close>, as the indentation of
  the source has it.\<close>

definition resolve_role_scope :: "store \<Rightarrow> json \<Rightarrow> exc + (Role option \<times> Scope option)" where
  "resolve_role_scope st d =
     (case py_getitem d ''role_id'' of Inl e \<Rightarrow> Inl e | Inr role_id \<Rightarrow>
        if truthy role_id then Inr (session_get_Role st role_id, None)
        else
          (case py_contains ''role_name'' d of
             Inl e \<Rightarrow> Inl e
           | Inr False \<Rightarrow> Inr (None, None)
           | Inr True \<Rightarrow>
              (case py_getitem d ''enterprise_id'' of Inl e \<Rightarrow> Inl e | Inr enterprise_id \<Rightarrow>
              (case py_getitem d ''role_name'' of Inl e \<Rightarrow> Inl e | Inr role_name \<Rightarrow>
                 (let role = first (Role_by_names st enterprise_id [role_name]) in
                  case py_contains ''scope_id'' d of
                    Inl e \<Rightarrow> Inl e
                  | Inr True \<Rightarrow>
                     (case py_getitem d ''scope_id'' of Inl e \<Rightarrow> Inl e | Inr scope_id \<Rightarrow>
                        Inr (role, session_get_Scope st scope_id))
                  | Inr False \<Rightarrow>
                     (case py_contains ''scope_name'' d of
                        Inl e \<Rightarrow> Inl e
                      | Inr True \<Rightarrow>
                         (case py_getitem d ''enterprise_id'' of Inl e \<Rightarrow> Inl e | Inr eid \<Rightarrow>
                         (case py_getitem d ''scope_name'' of Inl e \<Rightarrow> Inl e | Inr scope_name \<Rightarrow>
                            Inr (role, first (Scope_by_names st eid [scope_name]))))
                      | Inr False \<Rightarrow> Inr (role, None)))))))"

text \<open>\<^verbatim>\<open>if "k" in self.data: db_user.k = self.data["k"]\<close>.\<close>

definition assign_if_present ::
  "json \<Rightarrow> string \<Rightarrow> (json \<Rightarrow> User \<Rightarrow> User) \<Rightarrow> User \<Rightarrow> exc + User"
where
  "assign_if_present d k setter db_user =
     (case py_contains k d of
        Inl e \<Rightarrow> Inl e
      | Inr False \<Rightarrow> Inr db_user
      | Inr True \<Rightarrow> (case py_getitem d k of Inl e \<Rightarrow> Inl e | Inr v \<Rightarrow> Inr (setter v db_user)))"

text \<open>Lines 266 to 318: the update of a user that was found and whose snapshot scope is
  ALL or SELLS.\<close>

definition update_found_user :: "store \<Rightarrow> json \<Rightarrow> User \<Rightarrow> (exc + unit) \<times> store" where
  "update_found_user st d db_user =
     (case resolve_role_scope st d of
        Inl e \<Rightarrow> (Inl e, st)
      | Inr (role, scope) \<Rightarrow>
         (let u1 = (case role of None \<Rightarrow> db_user
                    | Some r \<Rightarrow> db_user\<lparr>User_role_id := Role_id r\<rparr>);
              u2 = (case scope of None \<Rightarrow> u1
                    | Some sc \<Rightarrow> u1\<lparr>User_scope_id := Scope_id sc\<rparr>)
          in
          case assign_if_present d ''username'' (\<lambda>v u. u\<lparr>User_username := v\<rparr>) u2 of
            Inl e \<Rightarrow> (Inl e, st) | Inr u3 \<Rightarrow>
         (case assign_if_present d ''email'' (\<lambda>v u. u\<lparr>User_email := v\<rparr>) u3 of
            Inl e \<Rightarrow> (Inl e, st) | Inr u4 \<Rightarrow>
         (case assign_if_present d ''full_name'' (\<lambda>v u. u\<lparr>User_full_name := v\<rparr>) u4 of
            Inl e \<Rightarrow> (Inl e, st) | Inr u5 \<Rightarrow>
         (let st' = update_commit_User st u5 in
          case py_getitem d ''id'' of Inl e \<Rightarrow> (Inl e, st') | Inr ident \<Rightarrow>
            (case session_get_User st' ident of
               None \<Rightarrow> (Inl AssertionError, st')
             | Some user_v \<Rightarrow> (Inr (), st')))))))"

text \<open>Lines 242 to 328: the block \<^verbatim>\<open>with db as session\<close>.  The tuple of the last test is
  \<^verbatim>\<open>(DefaultScope.ALL.value, user_read.scope.name == DefaultScope.SELLS.value)\<close>: a string
  and a truth value.\<close>

definition update_user_session :: "models \<Rightarrow> UpdateEvent \<Rightarrow> store \<Rightarrow> (exc + unit) \<times> store" where
  "update_user_session M self st =
     (case UserRead_of M (full_user self) of Inl e \<Rightarrow> (Inl e, st) | Inr user_read \<Rightarrow>
     (case py_getitem (data self) ''id'' of Inl e \<Rightarrow> (Inl e, st) | Inr ident \<Rightarrow>
     (case session_get_User st ident of
        Some db_user \<Rightarrow>
          if \<not> py_str_in (ScopeRelation_name (UserRead_scope user_read))
                 [JStr (DefaultScope_value ALL'), JStr (DefaultScope_value SELLS)]
          then (Inr (), delete_commit_User st db_user)
          else update_found_user st (data self) db_user
      | None \<Rightarrow>
          if py_str_in (ScopeRelation_name (UserRead_scope user_read))
               [JStr (DefaultScope_value ALL'),
                JBool (ScopeRelation_name (UserRead_scope user_read) = DefaultScope_value SELLS)]
          then (case User_of_read M user_read of
                  Inl e \<Rightarrow> (Inl e, st)
                | Inr user \<Rightarrow> insert_commit_User st user)
          else (Inr (), st))))"

text \<open>The body of the \<^verbatim>\<open>try\<close> of \<^verbatim>\<open>db_access\<close> in \<^verbatim>\<open>update_user\<close>, with the guard
  \<^verbatim>\<open>self.full_user is not None and self.data.get("enterprise_id") and self.data.get("id")\<close>.\<close>

definition update_user_try :: "models \<Rightarrow> UpdateEvent \<Rightarrow> store \<Rightarrow> (exc + unit) \<times> store" where
  "update_user_try M self st =
     (if full_user self \<noteq> JNull then
        (case py_get (data self) ''enterprise_id'' of Inl e \<Rightarrow> (Inl e, st) | Inr enterprise_id \<Rightarrow>
           if truthy enterprise_id then
             (case py_get (data self) ''id'' of Inl e \<Rightarrow> (Inl e, st) | Inr ident \<Rightarrow>
                if truthy ident then update_user_session M self st else (Inr (), st))
           else (Inr (), st))
      else (Inr (), st))"

text \<open>\<^verbatim>\<open>except Exception as db_exc\<close> prints and returns: the callback of \<^verbatim>\<open>update_user\<close>
  keeps what was committed and raises nothing.\<close>

definition swallow :: "(exc + unit) \<times> store \<Rightarrow> (exc + unit) \<times> store" where
  "swallow r = (Inr (), snd r)"

definition update_user_db_access :: "models \<Rightarrow> UpdateEvent \<Rightarrow> store \<Rightarrow> (exc + unit) \<times> store" where
  "update_user_db_access M self st = swallow (update_user_try M self st)"


subsection \<open>Create User\<close>

text \<open>\<^verbatim>\<open>d.copy()\<close> exists for a dict and a list; \<^verbatim>\<open>d.pop(k)\<close> with a string \<open>k\<close> removes
  the key of a dict and raises \<^verbatim>\<open>KeyError\<close> without it, and raises \<^verbatim>\<open>TypeError\<close> for a
  list.\<close>

fun py_copy :: "json \<Rightarrow> exc + json" where
  "py_copy (JObj kvs) = Inr (JObj kvs)"
| "py_copy (JList xs) = Inr (JList xs)"
| "py_copy JNull = Inl AttributeError"
| "py_copy (JBool b) = Inl AttributeError"
| "py_copy (JInt i) = Inl AttributeError"
| "py_copy (JFloat r) = Inl AttributeError"
| "py_copy (JStr s) = Inl AttributeError"

fun py_pop :: "json \<Rightarrow> string \<Rightarrow> exc + (json \<times> json)" where
  "py_pop (JObj kvs) k =
     (case map_of kvs k of
        None \<Rightarrow> Inl (KeyError k)
      | Some v \<Rightarrow> Inr (v, JObj (filter (\<lambda>kv. fst kv \<noteq> k) kvs)))"
| "py_pop (JList xs) k = Inl TypeError"
| "py_pop JNull k = Inl AttributeError"
| "py_pop (JBool b) k = Inl AttributeError"
| "py_pop (JInt i) k = Inl AttributeError"
| "py_pop (JFloat r) k = Inl AttributeError"
| "py_pop (JStr s) k = Inl AttributeError"

text \<open>Lines 382 to 397 of \<^verbatim>\<open>create_user\<close>: everything up to \<^verbatim>\<open>session.add(user)\<close>.  It
  touches no session and yields the user to add, or raises.\<close>

definition create_user_build :: "models \<Rightarrow> UpdateEvent \<Rightarrow> exc + User" where
  "create_user_build M self =
     (case py_copy (data self) of Inl e \<Rightarrow> Inl e | Inr read_data0 \<Rightarrow>
     (case py_pop read_data0 ''role'' of Inl e \<Rightarrow> Inl e | Inr (role_json, read_data1) \<Rightarrow>
     (case Role_of M role_json of Inl e \<Rightarrow> Inl e | Inr role \<Rightarrow>
     (case py_pop read_data1 ''scope'' of Inl e \<Rightarrow> Inl e | Inr (scope_json, read_data2) \<Rightarrow>
     (case Scope_of M scope_json of Inl e \<Rightarrow> Inl e | Inr scope \<Rightarrow>
     (case py_pop read_data2 ''enterprise'' of Inl e \<Rightarrow> Inl e | Inr (enterprise_json, read_data) \<Rightarrow>
     (case Enterprise_of M enterprise_json of Inl e \<Rightarrow> Inl e | Inr enterprise \<Rightarrow>
     (case py_get read_data ''created_at'' of Inl e \<Rightarrow> Inl e | Inr date_created \<Rightarrow>
     (case User_of M read_data of Inl e \<Rightarrow> Inl e | Inr user \<Rightarrow>
     (case (if date_created \<noteq> JNull then fromisoformat (parse_datetime M) date_created
            else Inr (now M)) of
        Inl e \<Rightarrow> Inl e
      | Inr t \<Rightarrow>
          Inr (user\<lparr>User_role_id := Role_id role, User_scope_id := Scope_id scope,
                    User_enterprise_id := Enterprise_id enterprise,
                    User_created_at := Some t\<rparr>)))))))))))"

definition create_user_try :: "models \<Rightarrow> UpdateEvent \<Rightarrow> store \<Rightarrow> (exc + unit) \<times> store" where
  "create_user_try M self st =
     (case create_user_build M self of
        Inl e \<Rightarrow> (Inl e, st)
      | Inr user \<Rightarrow> insert_commit_User st user)"

definition create_user_db_access :: "models \<Rightarrow> UpdateEvent \<Rightarrow> store \<Rightarrow> (exc + unit) \<times> store" where
  "create_user_db_access M self st = swallow (create_user_try M self st)"


subsection \<open>Delete Enterprise and Delete User\<close>

text \<open>The callbacks of \<^verbatim>\<open>delete_enterprise\<close> and \<^verbatim>\<open>delete_user\<close> have no \<^verbatim>\<open>try\<close>: what
  \<^verbatim>\<open>self.data["id"]\<close> raises leaves the callback.\<close>

definition delete_enterprise_db_access :: "UpdateEvent \<Rightarrow> store \<Rightarrow> (exc + unit) \<times> store" where
  "delete_enterprise_db_access self st =
     (case py_getitem (data self) ''id'' of Inl e \<Rightarrow> (Inl e, st) | Inr ident \<Rightarrow>
        (case session_get_Enterprise st ident of
           Some enterprise \<Rightarrow> (Inr (), delete_commit_Enterprise st enterprise)
         | None \<Rightarrow> (Inr (), st)))"

definition delete_user_db_access :: "UpdateEvent \<Rightarrow> store \<Rightarrow> (exc + unit) \<times> store" where
  "delete_user_db_access self st =
     (case py_getitem (data self) ''id'' of Inl e \<Rightarrow> (Inl e, st) | Inr ident \<Rightarrow>
        (case session_get_User st ident of
           Some user \<Rightarrow> (Inr (), delete_commit_User st user)
         | None \<Rightarrow> (Inr (), st)))"


section \<open>Sample collaborators and inputs\<close>

text \<open>Concrete stand-ins for the collaborators, on which the model is run: a JSON
  decoder that knows three messages, a timestamp parser that knows one timestamp, model
  constructors that read the fields the tests of the repository set, and session
  providers with scripted behaviour.\<close>

definition sample_parse_iso :: "string \<Rightarrow> datetime option" where
  "sample_parse_iso s = (if s = ''2024-05-01T12:00:00'' then Some 1714564800 else None)"

definition sample_envelope :: "json \<Rightarrow> json" where
  "sample_envelope start =
     JObj [(''event'', JStr ''user.deleted''), (''event_scope'', JStr ''ALL''),
           (''data'', JObj [(''id'', JInt 1)]), (''origin'', JStr ''rh_service''),
           (''start_date'', start)]"

definition sample_loads :: "string \<Rightarrow> json option" where
  "sample_loads m =
     (if m = ''5'' then Some (JInt 5)
      else if m = ''null'' then Some JNull
      else if m = ''envelope with start_date yesterday''
        then Some (sample_envelope (JStr ''yesterday''))
      else None)"

definition field :: "json \<Rightarrow> string \<Rightarrow> json" where
  "field j k = (case py_get j k of Inl e \<Rightarrow> JNull | Inr v \<Rightarrow> v)"

fun json_str :: "json \<Rightarrow> string option" where
  "json_str (JStr s) = Some s"
| "json_str JNull = None"
| "json_str (JBool b) = None"
| "json_str (JInt i) = None"
| "json_str (JFloat r) = None"
| "json_str (JList xs) = None"
| "json_str (JObj kvs) = None"

definition validated :: "'a option \<Rightarrow> exc + 'a" where
  "validated r = (case r of None \<Rightarrow> Inl ValidationError | Some x \<Rightarrow> Inr x)"

definition sample_RoleRelation :: "json \<Rightarrow> RoleRelation option" where
  "sample_RoleRelation j =
     do { i \<leftarrow> json_int (field j ''id'');
          n \<leftarrow> json_str (field j ''name'');
          h \<leftarrow> json_int (field j ''hierarchy'');
          Some \<lparr>RoleRelation_id = i, RoleRelation_name = n, RoleRelation_hierarchy = h\<rparr> }"

definition sample_ScopeRelation :: "json \<Rightarrow> ScopeRelation option" where
  "sample_ScopeRelation j =
     do { i \<leftarrow> json_int (field j ''id'');
          n \<leftarrow> json_str (field j ''name'');
          Some \<lparr>ScopeRelation_id = i, ScopeRelation_name = n\<rparr> }"

definition sample_EnterpriseRelation :: "json \<Rightarrow> EnterpriseRelation option" where
  "sample_EnterpriseRelation j =
     do { i \<leftarrow> json_int (field j ''id'');
          n \<leftarrow> json_str (field j ''name'');
          m \<leftarrow> json_str (field j ''accountable_email'');
          Some \<lparr>EnterpriseRelation_id = i, EnterpriseRelation_name = n,
                EnterpriseRelation_accountable_email = m\<rparr> }"

definition sample_UserRead_of :: "json \<Rightarrow> exc + UserRead" where
  "sample_UserRead_of j =
     validated
       (do { i \<leftarrow> json_int (field j ''id'');
             un \<leftarrow> json_str (field j ''username'');
             em \<leftarrow> json_str (field j ''email'');
             fn \<leftarrow> json_str (field j ''full_name'');
             r \<leftarrow> sample_RoleRelation (field j ''role'');
             sc \<leftarrow> sample_ScopeRelation (field j ''scope'');
             en \<leftarrow> sample_EnterpriseRelation (field j ''enterprise'');
             Some \<lparr>UserRead_id = i, UserRead_username = un, UserRead_email = em,
                   UserRead_full_name = fn, UserRead_role = r, UserRead_scope = sc,
                   UserRead_enterprise = en\<rparr> })"

text \<open>A stand-in for \<^verbatim>\<open>User(**user_read.model_dump())\<close> that always builds the user, as
  the specification words the insertion of a user from the snapshot.  The constructor
  of the repository gets the nested \<open>role\<close>, \<open>scope\<close> and \<open>enterprise\<close> dicts of the dump
  and may raise on them; what is inserted under this stand-in says nothing about it.\<close>

definition sample_User_of_read :: "UserRead \<Rightarrow> exc + User" where
  "sample_User_of_read ur =
     Inr \<lparr>User_id = Some (UserRead_id ur), User_username = JStr (UserRead_username ur),
          User_email = JStr (UserRead_email ur), User_full_name = JStr (UserRead_full_name ur),
          User_role_id = Some (RoleRelation_id (UserRead_role ur)),
          User_scope_id = Some (ScopeRelation_id (UserRead_scope ur)),
          User_enterprise_id = Some (EnterpriseRelation_id (UserRead_enterprise ur)),
          User_created_at = None\<rparr>"

definition sample_User_of :: "json \<Rightarrow> exc + User" where
  "sample_User_of j =
     (case j of
        JObj kvs \<Rightarrow>
          Inr \<lparr>User_id = json_int (field j ''id''), User_username = field j ''username'',
               User_email = field j ''email'', User_full_name = field j ''full_name'',
               User_role_id = json_int (field j ''role_id''),
               User_scope_id = json_int (field j ''scope_id''),
               User_enterprise_id = json_int (field j ''enterprise_id''),
               User_created_at = None\<rparr>
      | _ \<Rightarrow> Inl TypeError)"

definition sample_Role_of :: "json \<Rightarrow> exc + Role" where
  "sample_Role_of j =
     (case j of
        JObj kvs \<Rightarrow>
          Inr \<lparr>Role_id = json_int (field j ''id''),
               Role_name = (case json_str (field j ''name'') of None \<Rightarrow> [] | Some n \<Rightarrow> n),
               Role_hierarchy = (case json_int (field j ''hierarchy'') of None \<Rightarrow> 0 | Some h \<Rightarrow> h),
               Role_enterprise_id = json_int (field j ''enterprise_id'')\<rparr>
      | _ \<Rightarrow> Inl TypeError)"

definition sample_Scope_of :: "json \<Rightarrow> exc + Scope" where
  "sample_Scope_of j =
     (case j of
        JObj kvs \<Rightarrow>
          Inr \<lparr>Scope_id = json_int (field j ''id''),
               Scope_name = (case json_str (field j ''name'') of None \<Rightarrow> [] | Some n \<Rightarrow> n),
               Scope_enterprise_id = json_int (field j ''enterprise_id'')\<rparr>
      | _ \<Rightarrow> Inl TypeError)"

definition sample_Enterprise_of :: "json \<Rightarrow> exc + Enterprise" where
  "sample_Enterprise_of j =
     (case j of
        JObj kvs \<Rightarrow>
          Inr \<lparr>Enterprise_id = json_int (field j ''id''),
               Enterprise_name = (case json_str (field j ''name'') of None \<Rightarrow> [] | Some n \<Rightarrow> n),
               Enterprise_accountable_email =
                 (case json_str (field j ''accountable_email'') of None \<Rightarrow> [] | Some n \<Rightarrow> n)\<rparr>
      | _ \<Rightarrow> Inl TypeError)"

definition sample_models :: models where
  "sample_models =
     \<lparr>UserRead_of = sample_UserRead_of, User_of_read = sample_User_of_read,
      User_of = sample_User_of, Role_of = sample_Role_of, Scope_of = sample_Scope_of,
      Enterprise_of = sample_Enterprise_of, parse_datetime = sample_parse_iso,
      now = 1714564800\<rparr>"

text \<open>A database like the one \<^verbatim>\<open>setup_db_defaults\<close> of the tests builds: one enterprise,
  two roles, four scopes, and the user \<^verbatim>\<open>testuser\<close> with scope PATRIMONIAL.\<close>

definition sample_user :: User where
  "sample_user =
     \<lparr>User_id = Some 1, User_username = JStr ''testuser'',
      User_email = JStr ''testemail@test.mail.com'', User_full_name = JStr ''Test User'',
      User_role_id = Some 1, User_scope_id = Some 3, User_enterprise_id = Some 1,
      User_created_at = None\<rparr>"

definition sample_store :: store where
  "sample_store =
     \<lparr>enterprises =
        [\<lparr>Enterprise_id = Some 1, Enterprise_name = ''TestEnterprise'',
          Enterprise_accountable_email = ''testenterprise@test.mail.com''\<rparr>],
      users = [sample_user],
      roles =
        [\<lparr>Role_id = Some 1, Role_name = ''OWNER'', Role_hierarchy = 1,
          Role_enterprise_id = Some 1\<rparr>,
         \<lparr>Role_id = Some 2, Role_name = ''MANAGER'', Role_hierarchy = 2,
          Role_enterprise_id = Some 1\<rparr>],
      scopes =
        [\<lparr>Scope_id = Some 1, Scope_name = ''SELLS'', Scope_enterprise_id = Some 1\<rparr>,
         \<lparr>Scope_id = Some 2, Scope_name = ''ALL'', Scope_enterprise_id = Some 1\<rparr>,
         \<lparr>Scope_id = Some 3, Scope_name = ''PATRIMONIAL'', Scope_enterprise_id = Some 1\<rparr>,
         \<lparr>Scope_id = Some 4, Scope_name = ''HUMAN_RESOURCE'', Scope_enterprise_id = Some 1\<rparr>],
      added = []\<rparr>"

text \<open>The snapshot of user \<open>i\<close> with the scope named \<open>n\<close>, as the message carries it under
  the key \<^verbatim>\<open>user\<close>.\<close>

definition sample_snapshot :: "int \<Rightarrow> int \<Rightarrow> string \<Rightarrow> json" where
  "sample_snapshot i scope_id n =
     JObj [(''id'', JInt i), (''username'', JStr ''testuser''),
           (''email'', JStr ''testemail@test.mail.com''), (''full_name'', JStr ''Test User''),
           (''role'', JObj [(''id'', JInt 1), (''name'', JStr ''OWNER''), (''hierarchy'', JInt 1)]),
           (''scope'', JObj [(''id'', JInt scope_id), (''name'', JStr n)]),
           (''enterprise'',
              JObj [(''id'', JInt 1), (''name'', JStr ''TestEnterprise''),
                    (''accountable_email'', JStr ''testenterprise@test.mail.com'')])]"

text \<open>A \<^verbatim>\<open>user.updated\<close> event with payload \<open>d\<close> and snapshot \<open>fu\<close>.\<close>

definition sample_update_event :: "json \<Rightarrow> json \<Rightarrow> UpdateEvent" where
  "sample_update_event d fu =
     \<lparr>event = JStr (UserEvents_value USER_UPDATED),
      event_scope = JStr (DefaultScope_value SELLS), data = d, start_date = 1714564800,
      origin = JStr ''rh_service'', update_scope = JStr (DefaultScope_value PATRIMONIAL),
      full_user = fu\<rparr>"

text \<open>An event of kind \<open>k\<close> with payload \<open>d\<close>, scope ALL and no snapshot.\<close>

definition sample_event :: "string \<Rightarrow> json \<Rightarrow> UpdateEvent" where
  "sample_event k d =
     \<lparr>event = JStr k, event_scope = JStr (DefaultScope_value ALL'), data = d,
      start_date = 1714564800, origin = JStr ''rh_service'', update_scope = JNull,
      full_user = JNull\<rparr>"

text \<open>The payload of the \<^verbatim>\<open>user.created\<close> event of \<^verbatim>\<open>test_create_user_event\<close>.\<close>

definition sample_create_user_data :: json where
  "sample_create_user_data =
     JObj [(''id'', JInt 5), (''username'', JStr ''testuser2''),
           (''email'', JStr ''testemail2@test.mail.com''), (''full_name'', JStr ''Test User 2''),
           (''role'', JObj [(''id'', JInt 1), (''name'', JStr ''OWNER''), (''hierarchy'', JInt 1)]),
           (''scope'', JObj [(''id'', JInt 2), (''name'', JStr ''ALL'')]),
           (''enterprise'',
              JObj [(''id'', JInt 1), (''name'', JStr ''TestEnterprise''),
                    (''accountable_email'', JStr ''testenterprisemail@test.com'')]),
           (''created_at'', JStr ''2024-05-01T12:00:00'')]"

text \<open>Session providers.  The world of the scripted ones is the number of calls of
  \<^verbatim>\<open>next(get_db())\<close> so far; the session is the unit value.\<close>

definition script_provider :: "(nat \<Rightarrow> exc + unit option) \<Rightarrow> (nat, unit) provider" where
  "script_provider f =
     \<lparr>get_db = (\<lambda>n. (f n, Suc n)), is_active = (\<lambda>d n. True), close = (\<lambda>d n. n),
      rollback = (\<lambda>d n. n)\<rparr>"

text \<open>A provider whose every call raises, as one of an unreachable database does.\<close>

definition provider_down :: "(nat, unit) provider" where
  "provider_down = script_provider (\<lambda>n. Inl (Exception ''connection refused''))"

text \<open>A provider that raises six times and yields a session from the seventh call on.\<close>

definition provider_down6 :: "(nat, unit) provider" where
  "provider_down6 =
     script_provider (\<lambda>n. if n < 6 then Inl (Exception ''connection refused'') else Inr (Some ()))"



text \<open>A provider over the database itself: every call yields a session.\<close>

definition provider_store :: "(store, unit) provider" where
  "provider_store =
     \<lparr>get_db = (\<lambda>st. (Inr (Some ()), st)), is_active = (\<lambda>d st. True), close = (\<lambda>d st. st),
      rollback = (\<lambda>d st. st)\<rparr>"

definition callback_ok :: "(nat, unit) callback" where
  "callback_ok d n = (Inr (), n)"


text \<open>A provider whose every call raises, whatever the world.\<close>

definition always_raises :: "('w, 'db) provider \<Rightarrow> bool" where
  "always_raises env = (\<forall>w. \<exists>e w'. get_db env w = (Inl e, w'))"



section \<open>Properties of the parser and of the scope filter\<close>

text \<open>
  Claim C1.  The scope filter answers true exactly for an event whose kind is one of the six
  recognised tokens and for which \<open>event_scope\<close>, or \<open>update_scope\<close> read as the empty
  string when it is absent, is PATRIMONIAL or ALL.  In particular a \<^verbatim>\<open>user.updated\<close>
  event with scope SELLS and update scope PATRIMONIAL is relevant, and one with scope
  HUMAN\_RESOURCE and no update scope is not.
\<close>

theorem check_valid_user_event_relevance:
  "check_valid_user_event self =
     (event self \<in> JStr ` {''enterprise.created'', ''enterprise.updated'', ''enterprise.deleted'',
                           ''user.created'', ''user.updated'', ''user.deleted''} \<and>
      (JStr ''PATRIMONIAL'' \<in>
         {event_scope self, if update_scope self = JNull then JStr [] else update_scope self} \<or>
       JStr ''ALL'' \<in>
         {event_scope self, if update_scope self = JNull then JStr [] else update_scope self}))
   \<and> check_valid_user_event
        \<lparr>event = JStr ''user.updated'', event_scope = JStr ''SELLS'', data = d, start_date = t,
         origin = orig, update_scope = JStr ''PATRIMONIAL'', full_user = fu\<rparr>
   \<and> \<not> check_valid_user_event
        \<lparr>event = JStr ''user.updated'', event_scope = JStr ''HUMAN_RESOURCE'', data = d,
         start_date = t, origin = orig, update_scope = JNull, full_user = fu\<rparr>"
  by (auto simp: check_valid_user_event_def py_in_strs_def py_eq_str_def user_events_def
      enterprise_events_def Let_def)

text \<open>What \<^verbatim>\<open>create_from_message\<close> does return \<^verbatim>\<open>None\<close> for: a message that does not
  decode, and a decoded dict in which a required field is missing.\<close>

lemma any_not_in_missing:
  assumes "k \<in> set ks" and "py_contains k d = Inr False"
    and "\<And>k'. k' \<in> set ks \<Longrightarrow> \<exists>b. py_contains k' d = Inr b"
  shows "any_not_in d ks = Inr True"
  using assms
proof (induction ks)
  case Nil
  then show ?case by simp
next
  case (Cons a ks)
  obtain b where b: "py_contains a d = Inr b" using Cons.prems(3)[of a] by auto
  show ?case
  proof (cases b)
    case False
    with b show ?thesis by simp
  next
    case True
    with b Cons.prems(1,2) have "k \<in> set ks" by auto
    with Cons.IH Cons.prems(2,3) have "any_not_in d ks = Inr True" by auto
    with b True show ?thesis by simp
  qed
qed

lemma create_from_message_undecodable:
  "loads message = None \<Longrightarrow> create_from_message loads parse_iso message = Inr None"
  by (simp add: create_from_message_def)

lemma create_from_message_missing_field:
  assumes "loads message = Some (JObj kvs)" and "k \<in> set required_fields"
    and "k \<notin> fst ` set kvs"
  shows "create_from_message loads parse_iso message = Inr None"
proof -
  have "any_not_in (JObj kvs) required_fields = Inr True"
    using assms(2,3) by (intro any_not_in_missing[of k]) auto
  with assms(1) show ?thesis by (simp add: create_from_message_def)
qed

text \<open>
  Claim C3.  The claim asks that every message that decodes but lacks a required field
  yields \<^verbatim>\<open>None\<close> and raises nothing.  The messages \<^verbatim>\<open>5\<close> and \<^verbatim>\<open>null\<close> decode, to a
  number and to \<^verbatim>\<open>None\<close>, and carry no field; for them the test
  \<^verbatim>\<open>x not in message_dict\<close> raises \<^verbatim>\<open>TypeError\<close>, which leaves \<^verbatim>\<open>create_from_message\<close>.
\<close>

theorem create_from_message_scalar_raises:
  "sample_loads ''5'' = Some (JInt 5) \<and>
   create_from_message sample_loads parse_iso ''5'' = Inl TypeError \<and>
   sample_loads ''null'' = Some JNull \<and>
   create_from_message sample_loads parse_iso ''null'' = Inl TypeError"
  by (simp add: create_from_message_def sample_loads_def required_fields_def)

lemma any_not_in_obj_all:
  "set ks \<subseteq> fst ` set kvs \<Longrightarrow> any_not_in (JObj kvs) ks = Inr False"
  by (induction ks) auto

lemma map_of_present:
  "k \<in> fst ` set kvs \<Longrightarrow> \<exists>v. map_of kvs k = Some v"
  by (cases "map_of kvs k") (auto simp: map_of_eq_None_iff)

text \<open>
  Claim C4.  A message that decodes to an object with all five required fields, whose
  \<open>start_date\<close> is not a string that parses as an ISO-8601 timestamp, makes
  \<^verbatim>\<open>create_from_message\<close> raise: \<^verbatim>\<open>ValueError\<close> for a string, \<^verbatim>\<open>TypeError\<close> for another
  value.  It does not return \<^verbatim>\<open>None\<close>.
\<close>

theorem create_from_message_bad_start_date:
  assumes "loads message = Some (JObj kvs)"
    and "set required_fields \<subseteq> fst ` set kvs"
    and "map_of kvs ''start_date'' = Some sd"
    and "\<not> (\<exists>s t. sd = JStr s \<and> parse_iso s = Some t)"
  shows "create_from_message loads parse_iso message \<in> {Inl ValueError, Inl TypeError}"
proof -
  have a: "any_not_in (JObj kvs) required_fields = Inr False"
    using assms(2) by (rule any_not_in_obj_all)
  have f: "fromisoformat parse_iso sd \<in> {Inl ValueError, Inl TypeError}"
    using assms(4) by (cases sd) (auto split: option.splits)
  obtain ev where ev: "map_of kvs ''event'' = Some ev"
    using map_of_present[of "''event''" kvs] assms(2) by (auto simp: required_fields_def)
  obtain sc where sc: "map_of kvs ''event_scope'' = Some sc"
    using map_of_present[of "''event_scope''" kvs] assms(2) by (auto simp: required_fields_def)
  obtain da where da: "map_of kvs ''data'' = Some da"
    using map_of_present[of "''data''" kvs] assms(2) by (auto simp: required_fields_def)
  have "build_event parse_iso (JObj kvs) \<in> {Inl ValueError, Inl TypeError}"
    using f ev sc da assms(3) by (auto simp: build_event_def)
  then show ?thesis
    using assms(1) a by (auto simp: create_from_message_def)
qed

theorem create_from_message_bad_start_date_witness:
  "sample_loads ''envelope with start_date yesterday'' = Some (sample_envelope (JStr ''yesterday''))
   \<and> sample_parse_iso ''yesterday'' = None
   \<and> create_from_message sample_loads sample_parse_iso ''envelope with start_date yesterday''
       = Inl ValueError"
proof -
  let ?kvs = "[(''event'', JStr ''user.deleted''), (''event_scope'', JStr ''ALL''),
           (''data'', JObj [(''id'', JInt 1)]), (''origin'', JStr ''rh_service''),
           (''start_date'', JStr ''yesterday'')]"
  have h1: "sample_loads ''envelope with start_date yesterday'' = Some (JObj ?kvs)"
    by (simp add: sample_loads_def sample_envelope_def)
  have h2: "set required_fields \<subseteq> fst ` set ?kvs"
    by (simp add: required_fields_def)
  have h3: "map_of ?kvs ''start_date'' = Some (JStr ''yesterday'')" by simp
  have h4: "\<not> (\<exists>s t. JStr ''yesterday'' = JStr s \<and> sample_parse_iso s = Some t)"
    by (simp add: sample_parse_iso_def)
  have v: "create_from_message sample_loads sample_parse_iso
             ''envelope with start_date yesterday'' \<noteq> Inl TypeError"
    by (simp add: create_from_message_def sample_loads_def sample_envelope_def
        required_fields_def build_event_def sample_parse_iso_def)
  from create_from_message_bad_start_date
         [where loads = sample_loads and parse_iso = sample_parse_iso, OF h1 h2 h3 h4] v h1
  show ?thesis by (simp add: sample_parse_iso_def sample_envelope_def)
qed


section \<open>Properties of the apply loop\<close>

lemmas loop_defs =
  db_access_loop_def loop_body_def on_exception_def initial_state_def after_loop_def
  close_if_active_def default_retries_def script_provider_def

text \<open>An attempt whose acquisition raises while \<^verbatim>\<open>db\<close> is still \<^verbatim>\<open>None\<close> leaves the
  counter as it is.\<close>

lemma loop_body_raises_unacquired:
  assumes "always_raises env" and "db s = None"
  shows "\<exists>s'. loop_body env cb s = (False, s') \<and> db s' = None \<and> counter s' = counter s"
proof -
  obtain e w' where "get_db env (world s) = (Inl e, w')"
    using assms(1) unfolding always_raises_def by blast
  then show ?thesis using assms(2)
    by (simp add: loop_body_def on_exception_def)
qed

lemma db_access_while_always_raises:
  assumes "db_access_while env cb s = Some y"
  shows "\<not> (always_raises env \<and> db s = None \<and> 0 < counter s)"
proof (rule db_access_while.raw_induct
    [where P = "\<lambda>env cb s y. \<not> (always_raises env \<and> db s = None \<and> 0 < counter s)",
     OF _ assms])
  fix w :: "('a, 'b) provider \<Rightarrow> ('a, 'b) callback \<Rightarrow> ('a, 'b) loop_state
              \<Rightarrow> ('a, 'b) loop_state option"
  fix env cb s y
  assume IH: "\<And>e c t z. w e c t = Some z
                \<Longrightarrow> \<not> (always_raises e \<and> db t = None \<and> 0 < counter t)"
    and eq: "(if 0 < counter s
        then case loop_body env cb s of (brk, s') \<Rightarrow> if brk then Some s' else w env cb s'
        else Some s) = Some y"
  show "\<not> (always_raises env \<and> db s = None \<and> 0 < counter s)"
  proof
    assume a: "always_raises env \<and> db s = None \<and> 0 < counter s"
    then obtain s' where s': "loop_body env cb s = (False, s')" "db s' = None"
      "counter s' = counter s"
      using loop_body_raises_unacquired by blast
    with eq a have "w env cb s' = Some y" by simp
    from IH[OF this] a s' show False by simp
  qed
qed

lemma db_access_loop_never_returns:
  assumes "always_raises env" and "0 < retries"
  shows "db_access_loop env cb retries w = None"
proof (cases "db_access_while env cb (initial_state retries w)")
  case None
  then show ?thesis by (simp add: db_access_loop_def)
next
  case (Some y)
  from db_access_while_always_raises[OF this] assms show ?thesis
    by (simp add: initial_state_def)
qed

text \<open>
  Claim C2.  The claim bounds the session acquisitions of one call by the budget of 5, for
  every behaviour of the provider.  The handler counts an attempt only under
  \<^verbatim>\<open>if db:\<close>, so an acquisition that raises before any session was obtained costs
  nothing: with a provider that raises six times and then yields a session the call
  makes seven acquisitions and returns with the budget untouched, and with a provider that
  raises at every call it never returns.
\<close>

theorem db_access_loop_exceeds_budget:
  "db_access_loop provider_down6 callback_ok default_retries 0 =
     Some (Inr (),
           \<lparr>world = 7, db = Some (), err = Some (Exception ''connection refused''),
            counter = 5, acquisitions = 7, waited = 0, acquired_ever = True\<rparr>)
   \<and> db_access_loop provider_down cb default_retries w = None"
proof -
  have "always_raises provider_down"
    by (simp add: always_raises_def provider_down_def script_provider_def)
  then have "db_access_loop provider_down cb default_retries w = None"
    by (rule db_access_loop_never_returns) (simp add: default_retries_def)
  moreover have "db_access_loop provider_down6 callback_ok default_retries 0 =
     Some (Inr (),
           \<lparr>world = 7, db = Some (), err = Some (Exception ''connection refused''),
            counter = 5, acquisitions = 7, waited = 0, acquired_ever = True\<rparr>)"
    by (simp add: loop_defs db_access_while.simps provider_down6_def callback_ok_def)
  ultimately show ?thesis by simp
qed








section \<open>Properties of the entity mutators\<close>

lemmas sample_model_defs =
  sample_models_def sample_update_event_def sample_snapshot_def sample_UserRead_of_def
  sample_RoleRelation_def sample_ScopeRelation_def sample_EnterpriseRelation_def field_def
  validated_def sample_User_of_read_def sample_store_def sample_user_def

lemmas update_user_defs =
  update_user_db_access_def update_user_try_def swallow_def update_user_session_def
  session_get_User_def has_key_def py_str_in_def

lemma py_getitem_of_truthy_get:
  "py_get d k = Inr v \<Longrightarrow> truthy v \<Longrightarrow> py_getitem d k = Inr v"
  by (cases d) (auto split: option.splits)

lemma find_filter_other_key:
  assumes "find (has_key pk ident) xs = Some x"
  shows "find (has_key pk ident) (filter (\<lambda>y. pk y \<noteq> pk x) xs) = None"
proof -
  from assms have "has_key pk ident x" by (auto simp: find_Some_iff)
  then show ?thesis by (auto simp: find_None_iff has_key_def)
qed

text \<open>
  Claim C5, as stated.  The claim asks only that \<open>enterprise_id\<close> and \<open>id\<close> be present in
  the payload.  The guard of the code is
  \<^verbatim>\<open>self.data.get("enterprise_id") and self.data.get("id")\<close>, a test of truth values: for
  the payload with \<open>id\<close> 1 and \<open>enterprise_id\<close> 0 both keys are present, user 1 is stored
  and the scope of the snapshot is HUMAN\_RESOURCE, and the callback leaves the database
  as it is, user 1 included.
\<close>

theorem update_user_zero_enterprise_id_keeps_user:
  "py_contains ''id'' (JObj [(''id'', JInt 1), (''enterprise_id'', JInt 0)]) = Inr True \<and>
   py_contains ''enterprise_id'' (JObj [(''id'', JInt 1), (''enterprise_id'', JInt 0)])
     = Inr True \<and>
   session_get_User sample_store (JInt 1) = Some sample_user \<and>
   update_user_db_access sample_models
     (sample_update_event (JObj [(''id'', JInt 1), (''enterprise_id'', JInt 0)])
        (sample_snapshot 1 4 ''HUMAN_RESOURCE''))
     sample_store
   = (Inr (), sample_store) \<and>
   session_get_User
     (snd (update_user_db_access sample_models
        (sample_update_event (JObj [(''id'', JInt 1), (''enterprise_id'', JInt 0)])
           (sample_snapshot 1 4 ''HUMAN_RESOURCE''))
        sample_store))
     (JInt 1)
   = Some sample_user"
  by (simp add: sample_model_defs update_user_defs)

text \<open>
  Claim C5, amended.  For a \<^verbatim>\<open>user.updated\<close> event that carries a snapshot and whose
  payload has \<open>enterprise_id\<close> and \<open>id\<close> with true values (\<^verbatim>\<open>data.get\<close> gives a value that
  is not \<^verbatim>\<open>None\<close>, zero, false or empty), if the session finds a user with that id and the
  scope name of the snapshot is neither ALL nor SELLS, the callback deletes that user:
  afterwards the session finds no user with the id, the other users are as before, and
  nothing is raised.
\<close>

theorem update_user_deletes_out_of_scope_user:
  assumes "full_user self \<noteq> JNull"
    and "py_get (data self) ''enterprise_id'' = Inr enterprise_id" and "truthy enterprise_id"
    and "py_get (data self) ''id'' = Inr ident" and "truthy ident"
    and "UserRead_of M (full_user self) = Inr user_read"
    and "ScopeRelation_name (UserRead_scope user_read) \<noteq> DefaultScope_value ALL'"
    and "ScopeRelation_name (UserRead_scope user_read) \<noteq> DefaultScope_value SELLS"
    and "session_get_User st ident = Some db_user"
  shows "update_user_db_access M self st =
           (Inr (), st\<lparr>users := filter (\<lambda>u. User_id u \<noteq> User_id db_user) (users st)\<rparr>) \<and>
         session_get_User (snd (update_user_db_access M self st)) ident = None"
proof -
  have g: "py_getitem (data self) ''id'' = Inr ident"
    using assms(4,5) by (rule py_getitem_of_truthy_get)
  have n: "\<not> py_str_in (ScopeRelation_name (UserRead_scope user_read))
                 [JStr (DefaultScope_value ALL'), JStr (DefaultScope_value SELLS)]"
    using assms(7,8) by (simp add: py_str_in_def)
  have s: "update_user_session M self st = (Inr (), delete_commit_User st db_user)"
    using assms(6,9) g n by (simp add: update_user_session_def)
  have r: "update_user_db_access M self st = (Inr (), delete_commit_User st db_user)"
    using assms(1-5) s by (simp add: update_user_db_access_def update_user_try_def swallow_def)
  have f: "session_get_User (delete_commit_User st db_user) ident = None"
    using find_filter_other_key[of User_id ident "users st" db_user] assms(9)
    by (simp add: session_get_User_def delete_commit_User_def)
  show ?thesis using r f by (simp add: delete_commit_User_def)
qed

theorem update_user_deletes_out_of_scope_user_witness:
  "update_user_db_access sample_models
     (sample_update_event (JObj [(''id'', JInt 1), (''enterprise_id'', JInt 1)])
        (sample_snapshot 1 4 ''HUMAN_RESOURCE''))
     sample_store
   = (Inr (), sample_store\<lparr>users := []\<rparr>)
   \<and> session_get_User sample_store (JInt 1) = Some sample_user"
proof -
  let ?self = "sample_update_event (JObj [(''id'', JInt 1), (''enterprise_id'', JInt 1)])
        (sample_snapshot 1 4 ''HUMAN_RESOURCE'')"
  let ?ur = "\<lparr>UserRead_id = 1, UserRead_username = ''testuser'',
      UserRead_email = ''testemail@test.mail.com'', UserRead_full_name = ''Test User'',
      UserRead_role =
        \<lparr>RoleRelation_id = 1, RoleRelation_name = ''OWNER'', RoleRelation_hierarchy = 1\<rparr>,
      UserRead_scope = \<lparr>ScopeRelation_id = 4, ScopeRelation_name = ''HUMAN_RESOURCE''\<rparr>,
      UserRead_enterprise =
        \<lparr>EnterpriseRelation_id = 1, EnterpriseRelation_name = ''TestEnterprise'',
         EnterpriseRelation_accountable_email = ''testenterprise@test.mail.com''\<rparr>\<rparr>"
  have h1: "full_user ?self \<noteq> JNull"
    by (simp add: sample_update_event_def sample_snapshot_def)
  have h2: "py_get (data ?self) ''enterprise_id'' = Inr (JInt 1)"
    by (simp add: sample_update_event_def)
  have h3: "truthy (JInt 1)" by simp
  have h4: "py_get (data ?self) ''id'' = Inr (JInt 1)"
    by (simp add: sample_update_event_def)
  have h6: "UserRead_of sample_models (full_user ?self) = Inr ?ur"
    by (simp add: sample_models_def sample_update_event_def sample_snapshot_def
        sample_UserRead_of_def sample_RoleRelation_def sample_ScopeRelation_def
        sample_EnterpriseRelation_def field_def validated_def)
  have h7: "ScopeRelation_name (UserRead_scope ?ur) \<noteq> DefaultScope_value ALL'" by simp
  have h8: "ScopeRelation_name (UserRead_scope ?ur) \<noteq> DefaultScope_value SELLS" by simp
  have h9: "session_get_User sample_store (JInt 1) = Some sample_user"
    by (simp add: session_get_User_def sample_store_def sample_user_def has_key_def)
  from update_user_deletes_out_of_scope_user[OF h1 h2 h3 h4 h3 h6 h7 h8 h9] h9
  show ?thesis by (simp add: sample_store_def sample_user_def)
qed

text \<open>
  Claim C6.  The claim has an unknown user inserted when the scope of the snapshot is ALL
  or SELLS.  The test of the code is membership in the tuple
  \<^verbatim>\<open>(DefaultScope.ALL.value, user_read.scope.name == DefaultScope.SELLS.value)\<close>, whose
  second component is a truth value, so the name SELLS is in it for no snapshot.  For the
  unknown user 7 with a SELLS snapshot the callback leaves the database as it is; with an
  ALL snapshot the test is passed and, under the stand-in constructor, the user is
  inserted.
\<close>

theorem update_user_SELLS_snapshot_not_inserted:
  "session_get_User sample_store (JInt 7) = None \<and>
   update_user_db_access sample_models
     (sample_update_event (JObj [(''id'', JInt 7), (''enterprise_id'', JInt 1)])
        (sample_snapshot 7 1 ''SELLS''))
     sample_store
   = (Inr (), sample_store) \<and>
   users (snd (update_user_db_access sample_models
     (sample_update_event (JObj [(''id'', JInt 7), (''enterprise_id'', JInt 1)])
        (sample_snapshot 7 2 ''ALL''))
     sample_store))
   = [sample_user, sample_user\<lparr>User_id := Some 7, User_scope_id := Some 2\<rparr>]"
  by (simp add: sample_model_defs update_user_defs insert_commit_User_def)

text \<open>
  Claim C7.  The claim has role and scope resolved independently, so that a scope given by
  \<open>scope_id\<close> is applied also when the role comes by \<open>role_id\<close> or is absent.  In the code
  the scope lookup stands inside the branch \<^verbatim>\<open>elif "role_name" in self.data\<close>.  For the
  existing user 1 (scope 3) and a payload with \<open>role_id\<close> 2 and \<open>scope_id\<close> 2 the role is
  changed and the scope is not, although scope 2 exists; for a payload with \<open>scope_id\<close> 2
  and no \<open>role_id\<close> key, \<^verbatim>\<open>self.data["role_id"]\<close> raises \<^verbatim>\<open>KeyError\<close>, the handler
  swallows it, and nothing is changed.
\<close>

theorem update_user_scope_not_applied:
  "snd (update_user_db_access sample_models
     (sample_update_event
        (JObj [(''id'', JInt 1), (''enterprise_id'', JInt 1), (''role_id'', JInt 2),
               (''scope_id'', JInt 2)])
        (sample_snapshot 1 2 ''ALL''))
     sample_store)
   = sample_store\<lparr>users := [sample_user\<lparr>User_role_id := Some 2\<rparr>],
                   added := [EUser (sample_user\<lparr>User_role_id := Some 2\<rparr>)]\<rparr> \<and>
   update_user_db_access sample_models
     (sample_update_event
        (JObj [(''id'', JInt 1), (''enterprise_id'', JInt 1), (''scope_id'', JInt 2)])
        (sample_snapshot 1 2 ''ALL''))
     sample_store
   = (Inr (), sample_store) \<and>
   User_scope_id sample_user = Some 3 \<and>
   session_get_Scope sample_store (JInt 2)
   = Some \<lparr>Scope_id = Some 2, Scope_name = ''ALL'', Scope_enterprise_id = Some 1\<rparr>"
  by (simp add: sample_model_defs update_user_defs update_found_user_def resolve_role_scope_def
      session_get_Role_def session_get_Scope_def assign_if_present_def update_commit_User_def
      Let_def)

text \<open>The callbacks of \<^verbatim>\<open>update_user\<close> and \<^verbatim>\<open>create_user\<close>, whose whole body is inside
  \<^verbatim>\<open>try\<close>, raise for no payload.\<close>

lemma mutators_with_try_never_raise:
  "fst (update_user_db_access M self st) = Inr () \<and>
   fst (create_user_db_access M self st) = Inr ()"
  by (simp add: update_user_db_access_def create_user_db_access_def swallow_def)

text \<open>
  Claim C9.  The claim has every error of a mutator body caught inside the mutator, so
  that no callback raises.  The callbacks of \<^verbatim>\<open>delete_enterprise\<close> and \<^verbatim>\<open>delete_user\<close>
  have no handler: for an event whose payload has no \<open>id\<close> key they raise \<^verbatim>\<open>KeyError\<close>,
  and the apply loop then retries five times and raises that error.
\<close>

theorem delete_callbacks_raise_KeyError:
  "delete_enterprise_db_access (self\<lparr>data := JObj []\<rparr>) st = (Inl (KeyError ''id''), st) \<and>
   delete_user_db_access (self\<lparr>data := JObj []\<rparr>) st = (Inl (KeyError ''id''), st) \<and>
   map_option fst
     (db_access_loop provider_store
        (\<lambda>d. delete_enterprise_db_access (sample_event ''enterprise.deleted'' (JObj [])))
        default_retries sample_store)
   = Some (Inl (KeyError ''id'')) \<and>
   map_option (acquisitions \<circ> snd)
     (db_access_loop provider_store
        (\<lambda>d. delete_enterprise_db_access (sample_event ''enterprise.deleted'' (JObj [])))
        default_retries sample_store)
   = Some 5"
  by (simp add: delete_enterprise_db_access_def delete_user_db_access_def db_access_loop_def
      db_access_while.simps loop_body_def on_exception_def initial_state_def after_loop_def
      close_if_active_def provider_store_def default_retries_def sample_event_def)

lemma insert_commit_User_frame:
  "added (snd (insert_commit_User st user)) = added st @ [EUser user] \<and>
   roles (snd (insert_commit_User st user)) = roles st \<and>
   scopes (snd (insert_commit_User st user)) = scopes st \<and>
   enterprises (snd (insert_commit_User st user)) = enterprises st"
  by (simp add: insert_commit_User_def Let_def split: option.splits)

text \<open>
  Claim C10.  When the construction of the payload of a \<^verbatim>\<open>user.created\<close> event succeeds,
  the callback of \<^verbatim>\<open>create_user\<close> hands exactly one object to \<^verbatim>\<open>session.add\<close>, the new
  user; the tables of roles, scopes and enterprises are as before; and the role, scope
  and enterprise built from the nested payloads give the user their ids as foreign keys.
\<close>

theorem create_user_adds_only_the_user:
  assumes "create_user_build M self = Inr user"
  shows "added (snd (create_user_db_access M self st)) = added st @ [EUser user] \<and>
         roles (snd (create_user_db_access M self st)) = roles st \<and>
         scopes (snd (create_user_db_access M self st)) = scopes st \<and>
         enterprises (snd (create_user_db_access M self st)) = enterprises st \<and>
         (\<exists>role_json scope_json enterprise_json rest1 rest2 rest3 role scope enterprise.
            py_pop (data self) ''role'' = Inr (role_json, rest1) \<and>
            py_pop rest1 ''scope'' = Inr (scope_json, rest2) \<and>
            py_pop rest2 ''enterprise'' = Inr (enterprise_json, rest3) \<and>
            Role_of M role_json = Inr role \<and> Scope_of M scope_json = Inr scope \<and>
            Enterprise_of M enterprise_json = Inr enterprise \<and>
            User_role_id user = Role_id role \<and> User_scope_id user = Scope_id scope \<and>
            User_enterprise_id user = Enterprise_id enterprise)"
proof -
  have a: "snd (create_user_db_access M self st) = snd (insert_commit_User st user)"
    using assms by (simp add: create_user_db_access_def create_user_try_def swallow_def)
  obtain d0 where d0: "py_copy (data self) = Inr d0"
    using assms by (auto simp: create_user_build_def split: sum.splits)
  then have [simp]: "d0 = data self" by (cases "data self") auto
  have w: "\<exists>role_json scope_json enterprise_json rest1 rest2 rest3 role scope enterprise.
            py_pop (data self) ''role'' = Inr (role_json, rest1) \<and>
            py_pop rest1 ''scope'' = Inr (scope_json, rest2) \<and>
            py_pop rest2 ''enterprise'' = Inr (enterprise_json, rest3) \<and>
            Role_of M role_json = Inr role \<and> Scope_of M scope_json = Inr scope \<and>
            Enterprise_of M enterprise_json = Inr enterprise \<and>
            User_role_id user = Role_id role \<and> User_scope_id user = Scope_id scope \<and>
            User_enterprise_id user = Enterprise_id enterprise"
    using assms d0 by (auto simp: create_user_build_def split: sum.splits prod.splits)
  show ?thesis using a w insert_commit_User_frame[of st user] by simp
qed

theorem create_user_adds_only_the_user_witness:
  "create_user_build sample_models (sample_event ''user.created'' sample_create_user_data)
   = Inr \<lparr>User_id = Some 5, User_username = JStr ''testuser2'',
          User_email = JStr ''testemail2@test.mail.com'',
          User_full_name = JStr ''Test User 2'', User_role_id = Some 1,
          User_scope_id = Some 2, User_enterprise_id = Some 1,
          User_created_at = Some 1714564800\<rparr> \<and>
   added (snd (create_user_db_access sample_models
                 (sample_event ''user.created'' sample_create_user_data) sample_store))
   = [EUser \<lparr>User_id = Some 5, User_username = JStr ''testuser2'',
          User_email = JStr ''testemail2@test.mail.com'',
          User_full_name = JStr ''Test User 2'', User_role_id = Some 1,
          User_scope_id = Some 2, User_enterprise_id = Some 1,
          User_created_at = Some 1714564800\<rparr>] \<and>
   roles (snd (create_user_db_access sample_models
                 (sample_event ''user.created'' sample_create_user_data) sample_store))
   = roles sample_store"
proof -
  have h: "create_user_build sample_models (sample_event ''user.created'' sample_create_user_data)
   = Inr \<lparr>User_id = Some 5, User_username = JStr ''testuser2'',
          User_email = JStr ''testemail2@test.mail.com'',
          User_full_name = JStr ''Test User 2'', User_role_id = Some 1,
          User_scope_id = Some 2, User_enterprise_id = Some 1,
          User_created_at = Some 1714564800\<rparr>"
    by (simp add: create_user_build_def sample_models_def sample_event_def
        sample_create_user_data_def sample_Role_of_def sample_Scope_of_def
        sample_Enterprise_of_def sample_User_of_def field_def sample_parse_iso_def)
  from create_user_adds_only_the_user[OF h, of sample_store] h
  show ?thesis by (simp add: sample_store_def)
qed

end
